theory Spec2Isabelle
  imports Complex_Main
begin

unbundle bit_operations_syntax

section \<open>Numeric types of the generator\<close>

text \<open>
  \<^verbatim>\<open>sw/sintable.cpp\<close> computes its tables with the C types \<^verbatim>\<open>int\<close>, \<^verbatim>\<open>long\<close> and
  \<^verbatim>\<open>double\<close>. The embedding reads \<^verbatim>\<open>int\<close> and \<^verbatim>\<open>long\<close> as \<^typ>\<open>int\<close> (no wrap-around:
  the shifts \<^verbatim>\<open>1<<lgtable\<close> and \<^verbatim>\<open>1l<<(ow-1)\<close> are the powers of two they denote, which is
  what C computes while the shift count is non-negative and below the width of the type)
  and \<^verbatim>\<open>double\<close> as \<^typ>\<open>real\<close>: \<^verbatim>\<open>M_PI\<close> is \<^term>\<open>pi\<close>, \<^verbatim>\<open>sin\<close> is \<^term>\<open>sin\<close> and
  the products, quotients and sums of doubles are exact. The conversions between the
  types are the ones C makes. A \<^verbatim>\<open>long\<close> converted to \<^verbatim>\<open>double\<close> keeps 53 significant
  bits, rounded to nearest with a tie going to the even neighbour (IEEE 754 binary64 in
  its default rounding mode); an \<^verbatim>\<open>int\<close> has 32 bits and converts exactly; a \<^verbatim>\<open>double\<close>
  assigned to a \<^verbatim>\<open>long\<close> loses its fraction.
\<close>

definition shl :: "int \<Rightarrow> int \<Rightarrow> int" where
  \<comment> \<open>\<^verbatim>\<open>a << n\<close>\<close>
  "shl a n = push_bit (nat n) a"

function bitlen :: "int \<Rightarrow> nat" where
  \<comment> \<open>the number of bits of a non-negative \<open>m\<close>\<close>
  "bitlen m = (if m \<le> 0 then 0 else Suc (bitlen (m div 2)))"
  by pat_completeness auto
termination
  by (relation "measure nat") auto

declare bitlen.simps [simp del]

definition round_even :: "nat \<Rightarrow> int \<Rightarrow> int" where
  \<comment> \<open>\<open>m\<close> rounded to the nearest multiple of \<open>2 ^ e\<close>, a tie to the even multiple\<close>
  "round_even e m =
     (let q = m div 2 ^ e; r = m mod 2 ^ e
      in (if 2 * r < 2 ^ e \<or> (2 * r = 2 ^ e \<and> even q) then q else q + 1) * 2 ^ e)"

definition double_of_long :: "int \<Rightarrow> real" where
  \<comment> \<open>the conversion of a \<^verbatim>\<open>long\<close> to \<^verbatim>\<open>double\<close>: 53 significant bits are kept\<close>
  "double_of_long m = real_of_int (round_even (bitlen \<bar>m\<bar> - 53) m)"

definition long_of_double :: "real \<Rightarrow> int" where
  \<comment> \<open>the conversion of a \<^verbatim>\<open>double\<close> to \<^verbatim>\<open>long\<close> on assignment: the fraction is discarded\<close>
  "long_of_double x = (if 0 \<le> x then \<lfloor>x\<rfloor> else \<lceil>x\<rceil>)"

section \<open>Formatted output\<close>

definition tab :: string where
  "tab = [CHR 0x09]"

definition dquote :: string where
  "dquote = [CHR 0x22]"

definition squote :: string where
  "squote = [CHR 0x27]"

fun dec :: "nat \<Rightarrow> string" where
  "dec n = (if n < 10 then [char_of (48 + n)] else dec (n div 10) @ [char_of (48 + n mod 10)])"

declare dec.simps [simp del]

definition fmt_d :: "int \<Rightarrow> string" where
  \<comment> \<open>\<^verbatim>\<open>%d\<close>\<close>
  "fmt_d i = (if i < 0 then CHR ''-'' # dec (nat (- i)) else dec (nat i))"

definition fmt_2d :: "int \<Rightarrow> string" where
  \<comment> \<open>\<^verbatim>\<open>%2d\<close>: right-justified in a field of at least two characters\<close>
  "fmt_2d i = replicate (2 - length (fmt_d i)) CHR '' '' @ fmt_d i"

section \<open>The text the generators write\<close>

text \<open>One definition for each format string of the source, its arguments as parameters.\<close>

definition size_limit_diag :: "string" where
  "size_limit_diag =
     ''ERR: Requested table size is greater than 16M\<newline>'' @
     ''\<newline>'' @
     ''While this is an arbitrary limit, few FPGA'' @ squote @
     ''s have this kind of\<newline>'' @
     ''block RAM.  If you know what you are doing, you can change this\<newline>'' @
     ''limit up to perhaps 30 without much hassle.  Beyond that, be\<newline>'' @
     ''aware of integer overflow.\<newline>''"

definition sintable_PURPOSE :: "string" where
  "sintable_PURPOSE =
     ''This is a very simple sinewave table lookup approach\<newline>'' @
     ''//'' @ tab @ tab @
     ''approach to generating a sine wave.  It has the lowest latency\<newline>'' @
     ''//'' @ tab @ ''among all sinewave generation alternatives.''"

definition quarterwav_PURPOSE :: "string" where
  "quarterwav_PURPOSE =
     ''This is a touch more complicated than the simple sinewave table\<newline>'' @
     ''//'' @ tab @ tab @
     ''lookup approach to generating a sine wave.  This approach\<newline>'' @
     ''//'' @ tab @
     ''exploits the fact that a sinewave table has symmetry within it,\<newline>'' @
     ''//'' @ tab @ ''enough symmetry so as to cut the necessary size of the table\<newline>'' @
     ''//'' @ tab @ ''in fourths.  Generating the sinewave value, though, requires\<newline>'' @
     ''//'' @ tab @ ''a little more logic to make this possible.''"

definition always_reset :: "bool \<Rightarrow> bool \<Rightarrow> string" where
  "always_reset with_reset async_reset =
     (if with_reset \<and> async_reset then
        tab @ ''always @(posedge i_clk, negedge i_areset_n)\<newline>'' @
        tab @ ''if (!i_areset_n)\<newline>''
      else if with_reset then
        tab @ ''always @(posedge i_clk)\<newline>'' @
        tab @ ''if (i_reset)\<newline>''
      else
        tab @ ''always @(posedge i_clk)\<newline>'' @
        tab)"

definition sintable_resetw :: "bool \<Rightarrow> bool \<Rightarrow> string" where
  "sintable_resetw with_reset async_reset =
     (if \<not> with_reset then [] else if async_reset then ''i_areset_n, '' else ''i_reset, '')"

definition quarterwav_resetw :: "bool \<Rightarrow> bool \<Rightarrow> string" where
  "quarterwav_resetw with_reset async_reset =
     (if \<not> with_reset then [] else if async_reset then ''i_areset_n'' else ''i_reset'')"

definition sintable_module :: "string \<Rightarrow> string \<Rightarrow> bool \<Rightarrow> int \<Rightarrow> int \<Rightarrow> string" where
  "sintable_module name resetw with_aux lgtable ow =
     ''module'' @ tab @ name @ ''(i_clk, '' @ resetw @ ''i_ce, '' @
     (if with_aux then ''i_aux, '' else []) @ ''i_phase, o_val'' @
     (if with_aux then '', o_aux'' else []) @ '');\<newline>'' @
     tab @ ''//\<newline>'' @
     tab @ ''parameter'' @ tab @ ''PW ='' @ fmt_2d lgtable @
     '', // Number of bits in the input phase\<newline>'' @
     tab @ tab @ tab @ ''OW ='' @ fmt_2d ow @ ''; // Number of output bits\<newline>'' @
     tab @ ''//\<newline>'' @
     tab @ ''input'' @ tab @ ''wire'' @ tab @ tab @ tab @ ''i_clk, '' @ resetw @
     ''i_ce;\<newline>'' @
     tab @ ''input'' @ tab @ ''wire'' @ tab @ ''[(PW-1):0]'' @ tab @ ''i_phase;\<newline>'' @
     tab @ ''output'' @ tab @ ''reg'' @ tab @ ''[(OW-1):0]'' @ tab @ ''o_val;\<newline>''"

definition sintable_aux_ports :: "string" where
  "sintable_aux_ports =
     tab @ ''//\<newline>'' @
     tab @ ''input'' @ tab @ ''wire'' @ tab @ tab @ tab @ ''i_aux;\<newline>'' @
     tab @ ''output'' @ tab @ ''reg'' @ tab @ tab @ tab @ ''o_aux;\<newline>''"

definition sintable_tbl_decl :: "string \<Rightarrow> string" where
  "sintable_tbl_decl name =
     ''\<newline>'' @
     tab @ ''reg'' @ tab @ ''[(OW-1):0]'' @ tab @ tab @ ''tbl'' @ tab @
     ''[0:((1<<PW)-1)];\<newline>'' @
     ''\<newline>'' @
     tab @ ''initial'' @ tab @ ''$readmemh('' @ dquote @ name @ ''.hex'' @ dquote @
     '', tbl);\<newline>'' @
     ''\<newline>''"

definition sintable_val_reset :: "string" where
  "sintable_val_reset =
     tab @ tab @ ''o_val <= 0;\<newline>'' @
     tab @ ''else ''"

definition sintable_val_ce :: "string" where
  "sintable_val_ce =
     ''if (i_ce)\<newline>'' @
     tab @ tab @ ''o_val <= tbl[i_phase];\<newline>'' @
     ''\<newline>''"

definition sintable_aux_reset :: "string" where
  "sintable_aux_reset =
     tab @ tab @ ''o_aux <= 0;\<newline>'' @
     tab @ ''else ''"

definition sintable_aux_ce :: "string" where
  "sintable_aux_ce =
     ''if (i_ce)\<newline>'' @
     tab @ tab @ ''o_aux <= i_aux;\<newline>''"

definition endmodule :: "string" where
  "endmodule =
     ''endmodule\<newline>''"

definition quarterwav_module :: "string \<Rightarrow> string \<Rightarrow> bool \<Rightarrow> bool \<Rightarrow> int \<Rightarrow> int \<Rightarrow> string" where
  "quarterwav_module name resetw with_reset with_aux lgtable ow =
     ''module'' @ tab @ name @ ''(i_clk, '' @ resetw @ (if with_reset then '', '' else []) @
     ''i_ce, i_phase, '' @ (if with_aux then ''i_aux, '' else []) @ ''o_val'' @
     (if with_aux then '', o_aux'' else []) @ '');\<newline>'' @
     tab @ ''//\<newline>'' @
     tab @ ''parameter'' @ tab @ ''PW ='' @ fmt_2d lgtable @
     '', // Number of bits in the input phase\<newline>'' @
     tab @ tab @ tab @ ''OW ='' @ fmt_2d ow @ ''; // Number of output bits\<newline>'' @
     tab @ ''//\<newline>'' @
     tab @ ''input'' @ tab @ tab @ tab @ tab @ ''i_clk, '' @ resetw @
     (if with_reset then '', '' else []) @ ''i_ce;\<newline>'' @
     tab @ ''input'' @ tab @ ''wire'' @ tab @ ''[(PW-1):0]'' @ tab @ ''i_phase;\<newline>'' @
     tab @ ''output'' @ tab @ ''reg'' @ tab @ ''[(OW-1):0]'' @ tab @ ''o_val;\<newline>''"

definition quarterwav_aux_ports :: "string" where
  "quarterwav_aux_ports =
     tab @ ''//\<newline>'' @
     tab @ ''input'' @ tab @ ''wire'' @ tab @ tab @ tab @ ''i_aux;\<newline>'' @
     tab @ ''output'' @ tab @ ''wire'' @ tab @ tab @ tab @ ''o_aux;\<newline>''"

definition quartertable_decl :: "string" where
  "quartertable_decl =
     tab @ ''reg'' @ tab @ ''[(OW-1):0]'' @ tab @ tab @ ''quartertable'' @ tab @
     ''[0:((1<<(PW-2))-1)];\<newline>''"

definition quarterwav_decls :: "string \<Rightarrow> string" where
  "quarterwav_decls name =
     ''\<newline>'' @
     quartertable_decl @ ''\<newline>'' @
     tab @ ''initial'' @ tab @ ''$readmemh('' @ dquote @ name @ ''.hex'' @ dquote @
     '', quartertable);\<newline>'' @
     ''\<newline>'' @
     tab @ ''reg'' @ tab @ ''[1:0]'' @ tab @ ''negate;\<newline>'' @
     tab @ ''reg'' @ tab @ ''[(PW-3):0]'' @ tab @ ''index;\<newline>'' @
     tab @ ''reg'' @ tab @ ''[(OW-1):0]'' @ tab @ ''tblvalue;\<newline>'' @
     ''\<newline>''"

definition quarterwav_reset :: "string" where
  "quarterwav_reset =
     tab @ ''begin\<newline>'' @
     tab @ tab @ ''negate  <= 2'' @ squote @ ''b00;\<newline>'' @
     tab @ tab @ ''index   <= 0;\<newline>'' @
     tab @ tab @ ''tblvalue<= 0;\<newline>'' @
     tab @ tab @ ''o_val   <= 0;\<newline>'' @
     tab @ ''end else ''"

definition quarterwav_ce :: "string" where
  "quarterwav_ce =
     ''if (i_ce)\<newline>'' @
     tab @ ''begin\<newline>'' @
     tab @ tab @ ''// Clock #1\<newline>'' @
     tab @ tab @ ''negate[0] <= i_phase[(PW-1)];\<newline>'' @
     tab @ tab @ ''if (i_phase[(PW-2)])\<newline>'' @
     tab @ tab @ tab @ ''index <= ~i_phase[(PW-3):0];\<newline>'' @
     tab @ tab @ ''else\<newline>'' @
     tab @ tab @ tab @ ''index <=  i_phase[(PW-3):0];\<newline>'' @
     tab @ tab @ ''// Clock #2\<newline>'' @
     tab @ tab @ ''tblvalue <= quartertable[index];\<newline>'' @
     tab @ tab @ ''negate[1] <= negate[0];\<newline>'' @
     tab @ tab @ ''// Output Clock\<newline>'' @
     tab @ tab @ ''if (negate[1])\<newline>'' @
     tab @ tab @ tab @ ''o_val <= -tblvalue;\<newline>'' @
     tab @ tab @ ''else\<newline>'' @
     tab @ tab @ tab @ ''o_val <=  tblvalue;\<newline>'' @
     tab @ ''end\<newline>'' @
     ''\<newline>''"

definition quarterwav_aux_reg :: "string" where
  "quarterwav_aux_reg =
     tab @ ''reg [1:0]'' @ tab @ ''aux;\<newline>''"

definition quarterwav_aux_reset :: "string" where
  "quarterwav_aux_reset =
     tab @ tab @ ''{ o_aux, aux } <= 0;\<newline>'' @
     tab @ ''else ''"

definition quarterwav_aux_ce :: "string" where
  "quarterwav_aux_ce =
     ''if (i_ce)\<newline>'' @
     tab @ tab @ ''{ o_aux, aux } <= { aux, i_aux };\<newline>''"

definition nettype :: "string" where
  "nettype =
     ''`default_nettype'' @ tab @ ''none\<newline>'' @
     ''//\<newline>''"

section \<open>Collaborators and outcomes\<close>

text \<open>
  \<^verbatim>\<open>legal\<close>, \<^verbatim>\<open>modulename\<close> and the macro \<^verbatim>\<open>PROJECT\<close> are declared in \<^verbatim>\<open>legal.h\<close> and
  \<^verbatim>\<open>hextable\<close> in \<^verbatim>\<open>hexfile.h\<close>; \<^verbatim>\<open>sintable.cpp\<close> only calls them. The first three are
  parameters of the model: \<open>legal\<close> is the text the call writes to the stream. A call of
  \<^verbatim>\<open>hextable\<close> is recorded with its arguments. \<open>heap\<close> is the content of the storage
  \<^verbatim>\<open>new long[n]\<close> returns, which C++ leaves uninitialised. \<open>assert_diag\<close> is the
  implementation's message for a failed \<^verbatim>\<open>assert\<close>. An outcome is what one call leaves
  behind: the text written to \<^verbatim>\<open>fp\<close> and to \<^verbatim>\<open>stderr\<close>, the call of \<^verbatim>\<open>hextable\<close> if
  one was made, and how the call ended (\<^verbatim>\<open>exit(EXIT_FAILURE)\<close> and a failed \<^verbatim>\<open>assert\<close>
  end the process).
\<close>

record env =
  legal :: "string \<Rightarrow> string \<Rightarrow> string \<Rightarrow> string"
  modulename :: "string \<Rightarrow> string"
  PROJECT :: string
  heap :: "nat \<Rightarrow> int"
  assert_diag :: string

record hexcall =
  hex_fname :: string
  hex_lgtable :: int
  hex_ow :: int
  hex_data :: "int list"

datatype exit_kind = Returned | Exit_Failure | Aborted

record outcome =
  fp_out :: string
  stderr_out :: string
  hextable_call :: "hexcall option"
  finished :: exit_kind

definition new_long :: "env \<Rightarrow> int \<Rightarrow> int list" where
  \<comment> \<open>\<^verbatim>\<open>new long[n]\<close>\<close>
  "new_long e n = map (heap e) [0..<nat n]"

section \<open>The table loops\<close>

function sintable_loop :: "int \<Rightarrow> int \<Rightarrow> int \<Rightarrow> int list \<Rightarrow> int list" where
  "sintable_loop tbl_entries maxv k tbldata =
     (if k < tbl_entries then
        (let ph = 2 * pi * real_of_int k / real_of_int tbl_entries
         in sintable_loop tbl_entries maxv (k + 1)
              (tbldata[nat k := long_of_double (double_of_long maxv * sin ph)]))
      else tbldata)"
  by pat_completeness auto
termination
  by (relation "measure (\<lambda>(tbl_entries, maxv, k, tbldata). nat (tbl_entries - k))") auto

declare sintable_loop.simps [simp del]

function quarterwav_loop :: "int \<Rightarrow> int \<Rightarrow> int \<Rightarrow> int list \<Rightarrow> int list" where
  "quarterwav_loop tbl_entries maxv k tbldata =
     (if k < tbl_entries div 4 then
        (let ph = 2 * pi * real_of_int k / real_of_int tbl_entries;
             ph = ph + pi / real_of_int tbl_entries
         in quarterwav_loop tbl_entries maxv (k + 1)
              (tbldata[nat k := long_of_double (double_of_long maxv * sin ph)]))
      else tbldata)"
  by pat_completeness auto
termination
  by (relation "measure (\<lambda>(tbl_entries, maxv, k, tbldata). nat (tbl_entries div 4 - k))") auto

declare quarterwav_loop.simps [simp del]

section \<open>The two generators\<close>

definition sintable ::
  "env \<Rightarrow> string \<Rightarrow> int \<Rightarrow> int \<Rightarrow> bool \<Rightarrow> bool \<Rightarrow> bool \<Rightarrow> outcome" where
  "sintable e fname lgtable ow with_reset with_aux async_reset =
     (if lgtable \<ge> 24 then
        \<lparr>fp_out = [], stderr_out = size_limit_diag, hextable_call = None,
         finished = Exit_Failure\<rparr>
      else
        (let name = modulename e fname;
             resetw = sintable_resetw with_reset async_reset;
             always = always_reset with_reset async_reset;
             tbldata = new_long e (shl 1 lgtable);
             tbl_entries = shl 1 lgtable;
             maxv = shl 1 (ow - 1) - 1;
             tbldata = sintable_loop tbl_entries maxv 0 tbldata
         in \<lparr>fp_out =
               legal e fname (PROJECT e) sintable_PURPOSE @
               nettype @
               sintable_module name resetw with_aux lgtable ow @
               (if with_aux then sintable_aux_ports else []) @
               sintable_tbl_decl name @
               always @
               (if with_reset then sintable_val_reset else []) @
               sintable_val_ce @
               (if with_aux then
                  always @ (if with_reset then sintable_aux_reset else []) @ sintable_aux_ce
                else []) @
               endmodule,
             stderr_out = [],
             hextable_call =
               Some \<lparr>hex_fname = fname, hex_lgtable = lgtable, hex_ow = ow,
                     hex_data = tbldata\<rparr>,
             finished = Returned\<rparr>))"

definition quarterwav ::
  "env \<Rightarrow> string \<Rightarrow> int \<Rightarrow> int \<Rightarrow> bool \<Rightarrow> bool \<Rightarrow> bool \<Rightarrow> outcome" where
  "quarterwav e fname lgtable ow with_reset with_aux async_reset =
     (if \<not> lgtable > 2 then
        \<lparr>fp_out = [], stderr_out = assert_diag e, hextable_call = None, finished = Aborted\<rparr>
      else if lgtable \<ge> 26 then
        \<lparr>fp_out = [], stderr_out = size_limit_diag, hextable_call = None,
         finished = Exit_Failure\<rparr>
      else
        (let name = modulename e fname;
             resetw = quarterwav_resetw with_reset async_reset;
             always = always_reset with_reset async_reset;
             tbldata = new_long e (shl 1 lgtable);
             tbl_entries = shl 1 lgtable;
             maxv = shl 1 (ow - 1) - 1;
             tbldata = quarterwav_loop tbl_entries maxv 0 tbldata
         in \<lparr>fp_out =
               legal e fname (PROJECT e) quarterwav_PURPOSE @
               quarterwav_module name resetw with_reset with_aux lgtable ow @
               (if with_aux then quarterwav_aux_ports else []) @
               quarterwav_decls name @
               always @
               (if with_reset then quarterwav_reset else []) @
               quarterwav_ce @
               (if with_aux then
                  quarterwav_aux_reg @ always @
                  (if with_reset then quarterwav_aux_reset else []) @ quarterwav_aux_ce
                else []) @
               endmodule,
             stderr_out = [],
             hextable_call =
               Some \<lparr>hex_fname = fname, hex_lgtable = lgtable - 2, hex_ow = ow,
                     hex_data = tbldata\<rparr>,
             finished = Returned\<rparr>))"

section \<open>The quarter-wave module as a register machine\<close>

text \<open>
  \<^verbatim>\<open>quarterwav\<close> writes a Verilog module whose state is the registers \<^verbatim>\<open>negate[1:0]\<close>,
  \<^verbatim>\<open>index\<close>, \<^verbatim>\<open>tblvalue\<close>, \<^verbatim>\<open>o_val\<close> and, with an auxiliary bit, \<^verbatim>\<open>aux[1:0]\<close> and
  \<^verbatim>\<open>o_aux\<close>. Both \<^verbatim>\<open>always\<close> blocks assign with \<^verbatim>\<open><=\<close>: every right-hand side reads the
  registers as they were before the event. \<open>quarterwav_event\<close> is one event of the
  blocks' sensitivity list, read off the text of \<open>always_reset\<close>, \<open>quarterwav_reset\<close>,
  \<open>quarterwav_ce\<close>, \<open>quarterwav_aux_reset\<close> and \<open>quarterwav_aux_ce\<close>. Registers hold
  unsigned values of their declared width; \<open>reset_cond\<close> is the condition of the
  \<^verbatim>\<open>if\<close> that \<open>always_reset\<close> opens (\<^verbatim>\<open>i_reset\<close>, or \<^verbatim>\<open>!i_areset_n\<close>). The text
  declares \<^verbatim>\<open>o_aux\<close> as \<^verbatim>\<open>output wire\<close> and assigns it in an \<^verbatim>\<open>always\<close> block; it is
  read here as the register that assignment makes of it. \<open>negate0\<close>, \<open>negate1\<close>, \<open>aux0\<close>
  and \<open>aux1\<close> are the bits \<^verbatim>\<open>negate[0]\<close>, \<^verbatim>\<open>negate[1]\<close>, \<^verbatim>\<open>aux[0]\<close> and \<^verbatim>\<open>aux[1]\<close>.
\<close>

record qw_regs =
  negate0 :: bool
  negate1 :: bool
  index :: int
  tblvalue :: int
  o_val :: int
  aux0 :: bool
  aux1 :: bool
  o_aux :: bool

record qw_pins =
  reset_cond :: bool
  i_ce :: bool
  i_phase :: int
  i_aux :: bool

definition mem_read :: "int list \<Rightarrow> int \<Rightarrow> int" where
  \<comment> \<open>\<^verbatim>\<open>quartertable[index]\<close>; an address outside the memory reads as 0 here\<close>
  "mem_read mem a = (if 0 \<le> a \<and> nat a < length mem then mem ! nat a else 0)"




section \<open>The direct module as a register machine\<close>

text \<open>
  The module \<^verbatim>\<open>sintable\<close> writes has the registers \<^verbatim>\<open>o_val\<close> and, with an auxiliary
  bit, \<^verbatim>\<open>o_aux\<close>; \<open>sintable_event\<close> is one event of its \<^verbatim>\<open>always\<close> blocks
  (\<open>sintable_val_reset\<close>, \<open>sintable_val_ce\<close>, \<open>sintable_aux_reset\<close>, \<open>sintable_aux_ce\<close>).
\<close>

record st_regs =
  st_o_val :: int
  st_o_aux :: bool

definition sintable_event ::
  "bool \<Rightarrow> bool \<Rightarrow> int list \<Rightarrow> qw_pins \<Rightarrow> st_regs \<Rightarrow> st_regs" where
  "sintable_event with_reset with_aux tbl x s =
     (let s' =
        (if with_reset \<and> reset_cond x then s\<lparr>st_o_val := 0\<rparr>
         else if i_ce x then s\<lparr>st_o_val := mem_read tbl (i_phase x)\<rparr>
         else s)
      in if \<not> with_aux then s'
         else if with_reset \<and> reset_cond x then s'\<lparr>st_o_aux := False\<rparr>
         else if i_ce x then s'\<lparr>st_o_aux := i_aux x\<rparr>
         else s')"

text \<open>
  Modelled from the spec: \<^verbatim>\<open>hextable(fname, lgtable, ow, data)\<close> (\<^verbatim>\<open>hexfile.h\<close>, absent) is
  handed a table length as its logarithm and persists the first \<^verbatim>\<open>1<<lgtable\<close> entries of
  \<^verbatim>\<open>data\<close>. \<open>hextable_entries\<close> is the table a recorded call persists.
\<close>

definition hextable_entries :: "hexcall \<Rightarrow> int list" where
  "hextable_entries h = take (nat (shl 1 (hex_lgtable h))) (hex_data h)"

definition persisted :: "outcome \<Rightarrow> int list" where
  \<comment> \<open>the table a run persists; none when it made no call of \<^verbatim>\<open>hextable\<close>\<close>
  "persisted r = (case hextable_call r of None \<Rightarrow> [] | Some h \<Rightarrow> hextable_entries h)"

section \<open>The spec's words\<close>


definition maxValue :: "int \<Rightarrow> int" where
  \<comment> \<open>\<open>maxValue = 2^(outputWidth-1) - 1\<close>\<close>
  "maxValue outputWidth = 2 ^ nat (outputWidth - 1) - 1"

section \<open>A concrete environment\<close>

definition env0 :: env where
  "env0 =
     \<lparr>legal = (\<lambda>fname project purpose. ''// '' @ project @ '': '' @ fname @ ''\<newline>''),
      modulename = (\<lambda>fname. takeWhile (\<lambda>c. c \<noteq> CHR ''.'') fname),
      PROJECT = ''CORDIC'',
      heap = (\<lambda>i. - 1),
      assert_diag = ''Assertion `lgtable>2'' @ squote @ '' failed.\<newline>''\<rparr>"




section \<open>The conversion of a long to a double\<close>

lemma bitlen_le_iff: "bitlen m \<le> w \<longleftrightarrow> m < 2 ^ w"
proof (induction w arbitrary: m)
  case 0
  show ?case by (subst bitlen.simps) auto
next
  case (Suc w)
  show ?case
  proof (cases "m \<le> 0")
    case True
    have "m < 2 ^ Suc w" using True by (rule order_le_less_trans) simp
    with True show ?thesis by (subst bitlen.simps) simp
  next
    case False
    have "bitlen m \<le> Suc w \<longleftrightarrow> bitlen (m div 2) \<le> w"
      using False by (subst bitlen.simps) simp
    also have "\<dots> \<longleftrightarrow> m div 2 < 2 ^ w" by (rule Suc.IH)
    also have "\<dots> \<longleftrightarrow> m < 2 ^ Suc w" by auto
    finally show ?thesis .
  qed
qed


lemma round_even_0: "round_even 0 m = m"
  by (simp add: round_even_def)

lemma double_of_long_exact:
  assumes "\<bar>m\<bar> < 2 ^ 53"
  shows "double_of_long m = real_of_int m"
proof -
  have "bitlen \<bar>m\<bar> \<le> 53" using assms by (simp only: bitlen_le_iff)
  then show ?thesis by (simp add: double_of_long_def round_even_0)
qed



lemma double_of_long_0: "double_of_long 0 = 0"
  by (simp add: double_of_long_exact)


section \<open>The loops, entry by entry\<close>

lemma length_sintable_loop: "length (sintable_loop n m k t) = length t"
proof (induction n m k t rule: sintable_loop.induct)
  case (1 n m k t)
  show ?case
  proof (cases "k < n")
    case True
    with 1 show ?thesis by (subst sintable_loop.simps) (simp add: Let_def)
  next
    case False
    then show ?thesis by (subst sintable_loop.simps) simp
  qed
qed

lemma nth_sintable_loop:
  "0 \<le> k \<Longrightarrow> i < length t \<Longrightarrow>
   sintable_loop n m k t ! i =
     (if k \<le> int i \<and> int i < n
      then long_of_double (double_of_long m * sin (2 * pi * real_of_int (int i) / real_of_int n))
      else t ! i)"
proof (induction n m k t rule: sintable_loop.induct)
  case (1 n m k t)
  show ?case
  proof (cases "k < n")
    case True
    have "sintable_loop n m k t ! i =
          sintable_loop n m (k + 1)
            (t[nat k := long_of_double (double_of_long m * sin (2 * pi * real_of_int k / real_of_int n))]) ! i"
      using True by (subst sintable_loop.simps) (simp add: Let_def)
    also have "\<dots> = (if k + 1 \<le> int i \<and> int i < n
        then long_of_double (double_of_long m * sin (2 * pi * real_of_int (int i) / real_of_int n))
        else (t[nat k := long_of_double (double_of_long m * sin (2 * pi * real_of_int k / real_of_int n))]) ! i)"
      using "1.IH" [OF True refl] "1.prems" by simp
    also have "\<dots> = (if k \<le> int i \<and> int i < n
        then long_of_double (double_of_long m * sin (2 * pi * real_of_int (int i) / real_of_int n))
        else t ! i)"
    proof (cases "int i = k")
      case True
      then have "nat k = i" by simp
      with True \<open>k < n\<close> "1.prems" show ?thesis by simp
    next
      case False
      then have "nat k \<noteq> i" using "1.prems" by auto
      with False show ?thesis by auto
    qed
    finally show ?thesis .
  next
    case False
    then show ?thesis by (subst sintable_loop.simps) auto
  qed
qed

lemma length_quarterwav_loop: "length (quarterwav_loop n m k t) = length t"
proof (induction n m k t rule: quarterwav_loop.induct)
  case (1 n m k t)
  show ?case
  proof (cases "k < n div 4")
    case True
    with 1 show ?thesis by (subst quarterwav_loop.simps) (simp add: Let_def)
  next
    case False
    then show ?thesis by (subst quarterwav_loop.simps) simp
  qed
qed

lemma nth_quarterwav_loop:
  "0 \<le> k \<Longrightarrow> i < length t \<Longrightarrow>
   quarterwav_loop n m k t ! i =
     (if k \<le> int i \<and> int i < n div 4
      then long_of_double (double_of_long m *
             sin (2 * pi * real_of_int (int i) / real_of_int n + pi / real_of_int n))
      else t ! i)"
proof (induction n m k t rule: quarterwav_loop.induct)
  case (1 n m k t)
  let ?v = "\<lambda>j. long_of_double (double_of_long m *
             sin (2 * pi * real_of_int j / real_of_int n + pi / real_of_int n))"
  show ?case
  proof (cases "k < n div 4")
    case True
    have "quarterwav_loop n m k t ! i = quarterwav_loop n m (k + 1) (t[nat k := ?v k]) ! i"
      using True by (subst quarterwav_loop.simps) (simp add: Let_def)
    also have "\<dots> = (if k + 1 \<le> int i \<and> int i < n div 4 then ?v (int i)
        else (t[nat k := ?v k]) ! i)"
      using "1.IH" [OF True refl refl] "1.prems" by simp
    also have "\<dots> = (if k \<le> int i \<and> int i < n div 4 then ?v (int i) else t ! i)"
    proof (cases "int i = k")
      case True
      then have "nat k = i" by simp
      with True \<open>k < n div 4\<close> "1.prems" show ?thesis by simp
    next
      case False
      then have "nat k \<noteq> i" using "1.prems" by auto
      with False show ?thesis by auto
    qed
    finally show ?thesis .
  next
    case False
    then show ?thesis by (subst quarterwav_loop.simps) auto
  qed
qed




section \<open>Folding a phase onto the first quadrant\<close>






section \<open>Registers read as signed numbers\<close>



section \<open>One event, and three in a row\<close>





section \<open>What the generators return\<close>

lemma shl_1: "shl 1 n = 2 ^ nat n"
  by (simp add: shl_def)

lemma quarterwav_returns:
  assumes "2 < lgtable" "lgtable < 26"
  shows "quarterwav e fname lgtable ow with_reset with_aux async_reset =
    \<lparr>fp_out =
       legal e fname (PROJECT e) quarterwav_PURPOSE @
       quarterwav_module (modulename e fname) (quarterwav_resetw with_reset async_reset)
         with_reset with_aux lgtable ow @
       (if with_aux then quarterwav_aux_ports else []) @
       quarterwav_decls (modulename e fname) @
       always_reset with_reset async_reset @
       (if with_reset then quarterwav_reset else []) @
       quarterwav_ce @
       (if with_aux then
          quarterwav_aux_reg @ always_reset with_reset async_reset @
          (if with_reset then quarterwav_aux_reset else []) @ quarterwav_aux_ce
        else []) @
       endmodule,
     stderr_out = [],
     hextable_call =
       Some \<lparr>hex_fname = fname, hex_lgtable = lgtable - 2, hex_ow = ow,
             hex_data = quarterwav_loop (shl 1 lgtable) (shl 1 (ow - 1) - 1) 0
                          (new_long e (shl 1 lgtable))\<rparr>,
     finished = Returned\<rparr>"
  using assms by (simp add: quarterwav_def Let_def)

lemma sintable_returns:
  assumes "lgtable < 24"
  shows "sintable e fname lgtable ow with_reset with_aux async_reset =
    \<lparr>fp_out =
       legal e fname (PROJECT e) sintable_PURPOSE @
       nettype @
       sintable_module (modulename e fname) (sintable_resetw with_reset async_reset)
         with_aux lgtable ow @
       (if with_aux then sintable_aux_ports else []) @
       sintable_tbl_decl (modulename e fname) @
       always_reset with_reset async_reset @
       (if with_reset then sintable_val_reset else []) @
       sintable_val_ce @
       (if with_aux then
          always_reset with_reset async_reset @
          (if with_reset then sintable_aux_reset else []) @ sintable_aux_ce
        else []) @
       endmodule,
     stderr_out = [],
     hextable_call =
       Some \<lparr>hex_fname = fname, hex_lgtable = lgtable, hex_ow = ow,
             hex_data = sintable_loop (shl 1 lgtable) (shl 1 (ow - 1) - 1) 0
                          (new_long e (shl 1 lgtable))\<rparr>,
     finished = Returned\<rparr>"
  using assms by (simp add: sintable_def Let_def)

lemma length_new_long: "length (new_long e n) = nat n"
  by (simp add: new_long_def)

lemma nat_shl_1: "nat (shl 1 n) = 2 ^ nat n"
  by (simp add: shl_1 nat_power_eq)

lemma quarterwav_entry:
  assumes "2 < lgtable" "i < 2 ^ nat (lgtable - 2)"
  shows "quarterwav_loop (shl 1 lgtable) m 0 (new_long e (shl 1 lgtable)) ! i =
         long_of_double (double_of_long m *
           sin (2 * pi * real i / 2 ^ nat lgtable + pi / 2 ^ nat lgtable))"
proof -
  define p where "p = nat (lgtable - 2)"
  have lg: "nat lgtable = p + 2" using assms(1) by (simp add: p_def)
  have n: "shl 1 lgtable = 2 ^ (p + 2)" by (simp add: shl_1 lg)
  have d: "shl 1 lgtable div 4 = 2 ^ p" by (simp add: n)
  have i: "i < 2 ^ p" using assms(2) by (simp add: p_def)
  then have "int i < 2 ^ p" by (metis of_nat_less_iff of_nat_numeral of_nat_power)
  have len: "i < length (new_long e (shl 1 lgtable))"
  proof -
    have "(2::nat) ^ p \<le> 2 ^ (p + 2)" by simp
    moreover have "nat (shl 1 lgtable) = 2 ^ (p + 2)" by (simp only: nat_shl_1 lg)
    ultimately show ?thesis using i by (simp add: length_new_long)
  qed
  have "quarterwav_loop (shl 1 lgtable) m 0 (new_long e (shl 1 lgtable)) ! i =
        long_of_double (double_of_long m *
          sin (2 * pi * real_of_int (int i) / real_of_int (shl 1 lgtable) +
               pi / real_of_int (shl 1 lgtable)))"
    using nth_quarterwav_loop [OF order_refl len, of "shl 1 lgtable" m] \<open>int i < 2 ^ p\<close> d
    by simp
  then show ?thesis by (simp add: shl_1)
qed

lemma sintable_entry:
  assumes "0 \<le> lgtable" "i < 2 ^ nat lgtable"
  shows "sintable_loop (shl 1 lgtable) m 0 (new_long e (shl 1 lgtable)) ! i =
         long_of_double (double_of_long m * sin (2 * pi * real i / 2 ^ nat lgtable))"
proof -
  have "int i < 2 ^ nat lgtable" using assms(2)
    by (metis of_nat_less_iff of_nat_numeral of_nat_power)
  moreover have len: "i < length (new_long e (shl 1 lgtable))"
    using assms(2) by (simp add: length_new_long nat_shl_1)
  ultimately have "sintable_loop (shl 1 lgtable) m 0 (new_long e (shl 1 lgtable)) ! i =
        long_of_double (double_of_long m *
          sin (2 * pi * real_of_int (int i) / real_of_int (shl 1 lgtable)))"
    using nth_sintable_loop [OF order_refl len, of "shl 1 lgtable" m] by (simp add: shl_1)
  then show ?thesis by (simp add: shl_1)
qed





section \<open>Two sines, bounded\<close>












lemma sintable_event_enabled:
  assumes "i_ce x" "\<not> (with_reset \<and> reset_cond x)"
  shows "st_o_val (sintable_event with_reset with_aux tbl x s) = mem_read tbl (i_phase x)"
    and "st_o_aux (sintable_event with_reset True tbl x s) = i_aux x"
  using assms by (auto simp add: sintable_event_def Let_def)

section \<open>The persisted tables\<close>

lemma maxv_maxValue: "shl 1 (ow - 1) - 1 = maxValue ow"
  by (simp add: shl_1 maxValue_def)


lemma persisted_sintable:
  assumes "0 \<le> lgtable" "lgtable < 24"
  shows "persisted (sintable e fname lgtable ow with_reset with_aux async_reset) =
         sintable_loop (shl 1 lgtable) (shl 1 (ow - 1) - 1) 0 (new_long e (shl 1 lgtable))"
  by (simp add: persisted_def hextable_entries_def sintable_returns [OF assms(2)]
      length_sintable_loop length_new_long)

lemma persisted_quarterwav:
  assumes "2 < lgtable" "lgtable < 26"
  shows "persisted (quarterwav e fname lgtable ow with_reset with_aux async_reset) =
         take (2 ^ nat (lgtable - 2))
           (quarterwav_loop (shl 1 lgtable) (shl 1 (ow - 1) - 1) 0 (new_long e (shl 1 lgtable)))"
  by (simp add: persisted_def hextable_entries_def quarterwav_returns [OF assms] nat_shl_1)

lemma length_persisted_sintable:
  assumes "0 \<le> lgtable" "lgtable < 24"
  shows "length (persisted (sintable e fname lgtable ow with_reset with_aux async_reset)) =
         2 ^ nat lgtable"
  by (simp only: persisted_sintable [OF assms] length_sintable_loop length_new_long nat_shl_1)

lemma length_persisted_quarterwav:
  assumes "2 < lgtable" "lgtable < 26"
  shows "length (persisted (quarterwav e fname lgtable ow with_reset with_aux async_reset)) =
         2 ^ nat (lgtable - 2)"
proof -
  have "nat lgtable = nat (lgtable - 2) + 2" using assms(1) by simp
  then have "(2::nat) ^ nat (lgtable - 2) \<le> 2 ^ nat lgtable" by simp
  then show ?thesis
    by (simp add: persisted_quarterwav [OF assms] length_quarterwav_loop length_new_long
        nat_shl_1)
qed

lemma nth_persisted_sintable:
  assumes "0 \<le> lgtable" "lgtable < 24" "k < 2 ^ nat lgtable"
  shows "persisted (sintable e fname lgtable ow with_reset with_aux async_reset) ! k =
         long_of_double (double_of_long (maxValue ow) * sin (2 * pi * real k / 2 ^ nat lgtable))"
  by (simp only: persisted_sintable [OF assms(1,2)] sintable_entry [OF assms(1,3)] maxv_maxValue)

lemma nth_persisted_quarterwav:
  assumes "2 < lgtable" "lgtable < 26" "k < 2 ^ nat (lgtable - 2)"
  shows "persisted (quarterwav e fname lgtable ow with_reset with_aux async_reset) ! k =
         long_of_double (double_of_long (maxValue ow) *
           sin (2 * pi * real k / 2 ^ nat lgtable + pi / 2 ^ nat lgtable))"
  using assms(3)
  by (simp add: persisted_quarterwav [OF assms(1,2)] quarterwav_entry [OF assms(1,3)]
      maxv_maxValue)






section \<open>The text and the table of the quarter-wave generator\<close>





section \<open>The claims\<close>














text \<open>
  C10. Neither generator looks at \<open>ow\<close>: with \<open>ow = 1\<close> and a valid \<open>lgtable\<close> each
  returns, with nothing on standard error, and every entry of the table it persists is 0,
  \<open>maxValue\<close> being \<open>2 ^ 0 - 1 = 0\<close>.
\<close>

theorem output_width_one:
  "(0 \<le> lgtable \<and> lgtable < 24 \<longrightarrow>
      finished (sintable e fname lgtable 1 with_reset with_aux async_reset) = Returned \<and>
      stderr_out (sintable e fname lgtable 1 with_reset with_aux async_reset) = [] \<and>
      length (persisted (sintable e fname lgtable 1 with_reset with_aux async_reset)) =
        2 ^ nat lgtable \<and>
      (\<forall>v \<in> set (persisted (sintable e fname lgtable 1 with_reset with_aux async_reset)).
         v = 0)) \<and>
   (2 < lgtable \<and> lgtable < 26 \<longrightarrow>
      finished (quarterwav e fname lgtable 1 with_reset with_aux async_reset) = Returned \<and>
      stderr_out (quarterwav e fname lgtable 1 with_reset with_aux async_reset) = [] \<and>
      length (persisted (quarterwav e fname lgtable 1 with_reset with_aux async_reset)) =
        2 ^ nat (lgtable - 2) \<and>
      (\<forall>v \<in> set (persisted (quarterwav e fname lgtable 1 with_reset with_aux async_reset)).
         v = 0)) \<and>
   maxValue 1 = 0"
proof (intro conjI impI ballI)
  show m: "maxValue 1 = 0" by (simp add: maxValue_def)
  {
    assume a: "0 \<le> lgtable \<and> lgtable < 24"
    then show "finished (sintable e fname lgtable 1 with_reset with_aux async_reset) = Returned"
      and "stderr_out (sintable e fname lgtable 1 with_reset with_aux async_reset) = []"
      by (simp_all add: sintable_returns)
    from a show "length (persisted (sintable e fname lgtable 1 with_reset with_aux async_reset)) =
        2 ^ nat lgtable"
      by (simp only: length_persisted_sintable)
    fix v
    assume "v \<in> set (persisted (sintable e fname lgtable 1 with_reset with_aux async_reset))"
    then obtain k where k: "k < 2 ^ nat lgtable"
      and v: "v = persisted (sintable e fname lgtable 1 with_reset with_aux async_reset) ! k"
      using a by (auto simp add: in_set_conv_nth length_persisted_sintable)
    have "v = long_of_double (double_of_long (maxValue 1) * sin (2 * pi * real k / 2 ^ nat lgtable))"
      using a k by (simp only: v nth_persisted_sintable)
    then show "v = 0" by (simp add: m double_of_long_0 long_of_double_def)
  }
  {
    assume a: "2 < lgtable \<and> lgtable < 26"
    then show "finished (quarterwav e fname lgtable 1 with_reset with_aux async_reset) = Returned"
      and "stderr_out (quarterwav e fname lgtable 1 with_reset with_aux async_reset) = []"
      by (simp_all add: quarterwav_returns)
    from a show "length (persisted (quarterwav e fname lgtable 1 with_reset with_aux async_reset)) =
        2 ^ nat (lgtable - 2)"
      by (simp only: length_persisted_quarterwav)
    fix v
    assume "v \<in> set (persisted (quarterwav e fname lgtable 1 with_reset with_aux async_reset))"
    then obtain k where k: "k < 2 ^ nat (lgtable - 2)"
      and v: "v = persisted (quarterwav e fname lgtable 1 with_reset with_aux async_reset) ! k"
      using a by (auto simp add: in_set_conv_nth length_persisted_quarterwav)
    have "v = long_of_double (double_of_long (maxValue 1) *
                sin (2 * pi * real k / 2 ^ nat lgtable + pi / 2 ^ nat lgtable))"
      using a k by (simp only: v nth_persisted_quarterwav)
    then show "v = 0" by (simp add: m double_of_long_0 long_of_double_def)
  }
qed

theorem output_width_one_witness:
  "(0::int) \<le> 2 \<and> (2::int) < 24 \<and> (2::int) < 3 \<and> (3::int) < 26 \<and>
   finished (sintable env0 ''sintable.v'' 2 1 False False False) = Returned \<and>
   persisted (sintable env0 ''sintable.v'' 2 1 False False False) ! 1 = 0 \<and>
   finished (quarterwav env0 ''quarterwav.v'' 3 1 False False False) = Returned \<and>
   persisted (quarterwav env0 ''quarterwav.v'' 3 1 False False False) ! 1 = 0"
proof -
  have a: "(0::int) \<le> 2 \<and> (2::int) < 24" and b: "(2::int) < 3 \<and> (3::int) < 26" by simp_all
  from output_width_one [of 2 env0 "''sintable.v''" False False False] a
  have f1: "finished (sintable env0 ''sintable.v'' 2 1 False False False) = Returned"
    and l1: "length (persisted (sintable env0 ''sintable.v'' 2 1 False False False)) = 2 ^ nat 2"
    and z1: "\<forall>v \<in> set (persisted (sintable env0 ''sintable.v'' 2 1 False False False)). v = 0"
    by blast+
  from l1 have "persisted (sintable env0 ''sintable.v'' 2 1 False False False) ! 1 \<in>
      set (persisted (sintable env0 ''sintable.v'' 2 1 False False False))"
    by (intro nth_mem) simp
  with z1 have e1: "persisted (sintable env0 ''sintable.v'' 2 1 False False False) ! 1 = 0"
    by blast
  from output_width_one [of 3 env0 "''quarterwav.v''" False False False] b
  have f2: "finished (quarterwav env0 ''quarterwav.v'' 3 1 False False False) = Returned"
    and l2: "length (persisted (quarterwav env0 ''quarterwav.v'' 3 1 False False False)) =
               2 ^ nat (3 - 2)"
    and z2: "\<forall>v \<in> set (persisted (quarterwav env0 ''quarterwav.v'' 3 1 False False False)). v = 0"
    by blast+
  from l2 have "persisted (quarterwav env0 ''quarterwav.v'' 3 1 False False False) ! 1 \<in>
      set (persisted (quarterwav env0 ''quarterwav.v'' 3 1 False False False))"
    by (intro nth_mem) simp
  with z2 have e2: "persisted (quarterwav env0 ''quarterwav.v'' 3 1 False False False) ! 1 = 0"
    by blast
  from a b f1 e1 f2 e2 show ?thesis by blast
qed



text \<open>
  C7. The direct generator returns for \<open>lgtable = 23\<close>, with an empty standard error and
  a call of \<^verbatim>\<open>hextable\<close> on \<open>2 ^ 23\<close> entries. For every \<open>lgtable \<ge> 24\<close> it writes the size
  diagnostic to standard error and exits with \<^verbatim>\<open>EXIT_FAILURE\<close>, having written nothing to
  \<^verbatim>\<open>fp\<close> and made no call of \<^verbatim>\<open>hextable\<close>: the check stands before the first write and
  before the table.
\<close>

theorem sintable_size_limit:
  "(finished (sintable e fname 23 ow with_reset with_aux async_reset) = Returned \<and>
    stderr_out (sintable e fname 23 ow with_reset with_aux async_reset) = [] \<and>
    (\<exists>h. hextable_call (sintable e fname 23 ow with_reset with_aux async_reset) = Some h \<and>
         length (hex_data h) = 2 ^ 23)) \<and>
   (\<forall>lgtable \<ge> 24.
      sintable e fname lgtable ow with_reset with_aux async_reset =
        \<lparr>fp_out = [], stderr_out = size_limit_diag, hextable_call = None,
         finished = Exit_Failure\<rparr>)"
proof -
  have "(23::int) < 24" by simp
  note r = sintable_returns [OF this, of e fname ow with_reset with_aux async_reset]
  have "length (sintable_loop (shl 1 23) (shl 1 (ow - 1) - 1) 0 (new_long e (shl 1 23))) = 2 ^ 23"
    by (simp only: length_sintable_loop length_new_long nat_shl_1) simp
  with r show ?thesis by (simp add: sintable_def)
qed

theorem sintable_size_limit_witness:
  "(24::int) \<ge> 24 \<and>
   sintable env0 ''sintable.v'' 24 8 False False False =
     \<lparr>fp_out = [], stderr_out = size_limit_diag, hextable_call = None, finished = Exit_Failure\<rparr>"
  using sintable_size_limit [of env0 "''sintable.v''" 8 False False False] by simp

text \<open>
  C8. The quarter-wave generator aborts on the failed \<^verbatim>\<open>assert(lgtable>2)\<close> for every
  \<open>lgtable \<le> 2\<close> and exits with the size diagnostic for every \<open>lgtable \<ge> 26\<close>, in both cases
  with nothing written to \<^verbatim>\<open>fp\<close> and no call of \<^verbatim>\<open>hextable\<close>; for \<open>lgtable = 3\<close> it
  returns. (The assertion is compiled in: \<^verbatim>\<open>NDEBUG\<close> is not defined.)
\<close>

theorem quarterwav_limits:
  "(\<forall>lgtable \<le> 2.
      quarterwav e fname lgtable ow with_reset with_aux async_reset =
        \<lparr>fp_out = [], stderr_out = assert_diag e, hextable_call = None, finished = Aborted\<rparr>) \<and>
   (\<forall>lgtable \<ge> 26.
      quarterwav e fname lgtable ow with_reset with_aux async_reset =
        \<lparr>fp_out = [], stderr_out = size_limit_diag, hextable_call = None,
         finished = Exit_Failure\<rparr>) \<and>
   finished (quarterwav e fname 3 ow with_reset with_aux async_reset) = Returned \<and>
   stderr_out (quarterwav e fname 3 ow with_reset with_aux async_reset) = []"
  by (simp add: quarterwav_def Let_def)

theorem quarterwav_limits_witness:
  "(2::int) \<le> 2 \<and> (26::int) \<ge> 26 \<and>
   quarterwav env0 ''quarterwav.v'' 2 8 True True False =
     \<lparr>fp_out = [], stderr_out = assert_diag env0, hextable_call = None, finished = Aborted\<rparr> \<and>
   quarterwav env0 ''quarterwav.v'' 26 8 True True False =
     \<lparr>fp_out = [], stderr_out = size_limit_diag, hextable_call = None, finished = Exit_Failure\<rparr>"
  using quarterwav_limits [of env0 "''quarterwav.v''" 8 True True False] by simp



end
